theory Spec2Isabelle
  imports Complex_Main "HOL-Library.Char_ord" "HOL-Library.List_Lexorder" "HOL-Library.Sublist"
begin

section \<open>Values, errors and the host's number conversions\<close>

text \<open>
  The value cell of a flag. In the source a cell is a pointer held both by the
  \<^verbatim>\<open>flag.FlagSet\<close> (as the \<^verbatim>\<open>flag.Value\<close> of the flag) and by the
  \<^verbatim>\<open>flg\<close> entry of \<^verbatim>\<open>gf.flags\<close>; the type switches of \<^verbatim>\<open>Parse\<close> and
  \<^verbatim>\<open>Compgen\<close> range over exactly these seven pointer types. The type
  parameter \<open>'f\<close> stands for \<^verbatim>\<open>float64\<close>, whose arithmetic is not modelled.
\<close>

datatype 'f cell =
    BoolCell bool
  | IntCell int
  | FloatCell 'f
  | StringCell string
  | IntSlice "int list"
  | NumberSlice "'f list"
  | StringSlice "string list"

text \<open>
  Errors of a positional argument's parser, and the outcomes of the program that
  are not a plain result: a Go \<^verbatim>\<open>error\<close> value (by its message), a Lua error
  raised with \<^verbatim>\<open>L.RaiseError\<close> (a Go panic that unwinds to the next protected
  Lua call), a Go run-time panic, and \<^verbatim>\<open>os.Exit(1)\<close>.
\<close>

datatype arg_error = ArgumentCountError | TypeMismatch string

datatype error =
    GoError string
  | InvalidBoolean string string
  | InvalidValue string string
  | ArgumentError string arg_error
  | LuaRaise string
  | GoPanic string
  | OsExit

definition ErrHelp :: error where
  "ErrHelp = GoError ''flag: help requested''"

text \<open>
  The conversions between strings, integers and \<^verbatim>\<open>float64\<close> that the program
  takes from \<^verbatim>\<open>strconv\<close> and from Go's numeric conversions. They are
  parameters of the model: \<open>atoi\<close> and \<open>atof\<close> return \<open>None\<close> where the
  conversion reports an error; \<open>atoi_err\<close> and \<open>atof_err\<close> are the values that
  \<^verbatim>\<open>strconv.ParseInt\<close> and \<^verbatim>\<open>strconv.ParseFloat\<close> return together with the
  error (zero for a syntax error, the nearest bound for a range error).
\<close>

record 'f host =
  atoi :: "string \<Rightarrow> int option"
  atof :: "string \<Rightarrow> 'f option"
  itof :: "int \<Rightarrow> 'f"
  atoi_err :: "string \<Rightarrow> int"
  atof_err :: "string \<Rightarrow> 'f"

text \<open>\<^verbatim>\<open>strconv.ParseBool\<close>, the conversion of a boolean flag's value.\<close>

definition ParseBool :: "string \<Rightarrow> bool option" where
  "ParseBool s =
     (if s \<in> set [''1'', ''t'', ''T'', ''TRUE'', ''true'', ''True''] then Some True
      else if s \<in> set [''0'', ''f'', ''F'', ''FALSE'', ''false'', ''False''] then Some False
      else None)"

text \<open>\<^verbatim>\<open>strings.Join\<close>.\<close>

fun Join :: "string list \<Rightarrow> string \<Rightarrow> string" where
  "Join [] sep = []"
| "Join [x] sep = x"
| "Join (x # y # ys) sep = x @ sep @ Join (y # ys) sep"

section \<open>Flags, positional arguments and the flag set\<close>

text \<open>
  A completion callback is a Lua function called with the word being completed, the
  table of the flags set so far and the raw words; \<open>None\<close> is a Lua error in the
  callback. The source hands the callback the \<^verbatim>\<open>String()\<close> rendering of each
  cell; the model hands it the cell, of which the rendering is a function.
\<close>

type_synonym 'f comp_fn = "string \<Rightarrow> (string \<times> 'f cell) list \<Rightarrow> string list \<Rightarrow> string option"

text \<open>
  The struct \<^verbatim>\<open>flg\<close> (name, value, usage, compFn). Its \<open>flg_value\<close> is the one
  cell that \<^verbatim>\<open>fs.fs\<close> (the \<^verbatim>\<open>flag.FlagSet\<close>) and \<^verbatim>\<open>gf.flags\<close> both point
  to: every registration function creates the cell, hands it to the
  \<^verbatim>\<open>flag.FlagSet\<close> and stores the same pointer under the same name. \<open>compFn\<close>
  is \<open>None\<close> for \<^verbatim>\<open>nil\<close> (a boolean flag).
\<close>

record 'f flg =
  flg_name :: string
  flg_value :: "'f cell"
  flg_usage :: string
  compFn :: "'f comp_fn option"

datatype arg_typ = ArgString | ArgInt | ArgNumber

datatype cardinality = Exact nat | Optional | ZeroOrMore | OneOrMore

record 'f argument =
  arg_name :: string
  arg_usage :: string
  arg_compFn :: "'f comp_fn"
  arg_typ :: arg_typ
  arg_times :: cardinality

text \<open>
  The struct \<^verbatim>\<open>FlagSet\<close>. \<open>formal\<close>, \<open>actual\<close> and \<open>args\<close> are the state of
  the embedded \<^verbatim>\<open>flag.FlagSet\<close> (\<^verbatim>\<open>fs.fs\<close>): the registered flags, the names
  of the flags set by a parse, and the tokens left after the flags. \<open>formal\<close>
  stands for \<^verbatim>\<open>gf.flags\<close> too (see \<open>flg\<close>).
\<close>

record 'f FlagSet =
  fs_name :: string
  formal :: "'f flg list"
  actual :: "string list"
  args :: "string list"
  arguments :: "'f argument list"

definition Lookup :: "'f FlagSet \<Rightarrow> string \<Rightarrow> 'f flg option" where
  "Lookup f n = find (\<lambda>g. flg_name g = n) (formal f)"

fun store :: "string \<Rightarrow> 'f cell \<Rightarrow> 'f flg list \<Rightarrow> 'f flg list" where
  "store n c [] = []"
| "store n c (g # gs) =
     (if flg_name g = n then g\<lparr>flg_value := c\<rparr> # gs else g # store n c gs)"

section \<open>The flag phase: Go's \<^verbatim>\<open>flag.FlagSet.Parse\<close>\<close>

text \<open>
  \<^verbatim>\<open>Set\<close> of the scalar values of Go's package \<^verbatim>\<open>flag\<close> (\<^verbatim>\<open>boolValue\<close>,
  \<^verbatim>\<open>intValue\<close>, \<^verbatim>\<open>float64Value\<close>, \<^verbatim>\<open>stringValue\<close>): convert the string and
  overwrite the cell; \<open>None\<close> is the conversion's error.
\<close>

fun scalar_Set :: "'f host \<Rightarrow> 'f cell \<Rightarrow> string \<Rightarrow> 'f cell option" where
  "scalar_Set h (BoolCell b) s = map_option BoolCell (ParseBool s)"
| "scalar_Set h (IntCell i) s = map_option IntCell (atoi h s)"
| "scalar_Set h (FloatCell x) s = map_option FloatCell (atof h s)"
| "scalar_Set h (StringCell t) s = Some (StringCell s)"
| "scalar_Set h c s = None"

text \<open>
  Modelled from the spec: the \<^verbatim>\<open>Set\<close> methods of \<^verbatim>\<open>intslice\<close>,
  \<^verbatim>\<open>numberslice\<close> and \<^verbatim>\<open>stringslice\<close>, whose file is not among the sources.
  "Sequence kinds accumulate rather than overwrite: each time the flag is seen,
  coerce the single new value and append"; a value that cannot be coerced is an
  error (\<open>None\<close>).
\<close>

fun slice_Set :: "'f host \<Rightarrow> 'f cell \<Rightarrow> string \<Rightarrow> 'f cell option" where
  "slice_Set h (IntSlice xs) s = map_option (\<lambda>i. IntSlice (xs @ [i])) (atoi h s)"
| "slice_Set h (NumberSlice xs) s = map_option (\<lambda>x. NumberSlice (xs @ [x])) (atof h s)"
| "slice_Set h (StringSlice xs) s = Some (StringSlice (xs @ [s]))"
| "slice_Set h c s = None"

fun is_slice :: "'f cell \<Rightarrow> bool" where
  "is_slice (IntSlice xs) = True"
| "is_slice (NumberSlice xs) = True"
| "is_slice (StringSlice xs) = True"
| "is_slice c = False"

text \<open>\<^verbatim>\<open>flag.Value.Set\<close>, dispatched on the cell's type.\<close>

definition value_Set :: "'f host \<Rightarrow> 'f cell \<Rightarrow> string \<Rightarrow> 'f cell option" where
  "value_Set h c s = (if is_slice c then slice_Set h c s else scalar_Set h c s)"

text \<open>
  What \<^verbatim>\<open>Set\<close> leaves in the cell when the conversion fails: \<^verbatim>\<open>boolValue\<close>,
  \<^verbatim>\<open>intValue\<close> and \<^verbatim>\<open>float64Value\<close> store the value that came with the error
  before they return it; a slice is taken to stay as it was.
\<close>

fun failed_Set :: "'f host \<Rightarrow> 'f cell \<Rightarrow> string \<Rightarrow> 'f cell" where
  "failed_Set h (BoolCell b) s = BoolCell False"
| "failed_Set h (IntCell i) s = IntCell (atoi_err h s)"
| "failed_Set h (FloatCell x) s = FloatCell (atof_err h s)"
| "failed_Set h c s = c"

text \<open>
  The end of \<^verbatim>\<open>parseOne\<close>: the cell has its new value and
  \<^verbatim>\<open>f.actual[name] = flag\<close> records the flag as set.
\<close>

definition assign :: "string \<Rightarrow> 'f cell \<Rightarrow> 'f FlagSet \<Rightarrow> 'f FlagSet" where
  "assign n c f = f\<lparr>formal := store n c (formal f), actual := List.insert n (actual f)\<rparr>"

text \<open>
  The cell after a failed \<^verbatim>\<open>Set\<close>: \<^verbatim>\<open>parseOne\<close> returns the error and does not
  record the flag as set.
\<close>

definition spoil :: "string \<Rightarrow> 'f cell \<Rightarrow> 'f FlagSet \<Rightarrow> 'f FlagSet" where
  "spoil n c f = f\<lparr>formal := store n c (formal f)\<rparr>"

text \<open>
  The result of one \<^verbatim>\<open>parseOne\<close>: \<open>Seen\<close> is \<^verbatim>\<open>(true, nil)\<close>, \<open>Stop e\<close> is
  \<^verbatim>\<open>(false, e)\<close>; both carry the flag set as \<^verbatim>\<open>parseOne\<close> left it.
\<close>

datatype 'f step = Seen "'f FlagSet" | Stop "error option" "'f FlagSet"

text \<open>
  The scan for \<^verbatim>\<open>=\<close> in \<^verbatim>\<open>parseOne\<close> (\<^verbatim>\<open>for i := 1; i < len(name); i++\<close>): the
  name up to the first \<^verbatim>\<open>=\<close> that is not its first byte, and the value after it.
\<close>

definition cut_value :: "string \<Rightarrow> string \<times> string option" where
  "cut_value n =
     (case n of
        [] \<Rightarrow> ([], None)
      | c # cs \<Rightarrow>
          if CHR ''='' \<in> set cs
          then (c # takeWhile (\<lambda>x. x \<noteq> CHR ''='') cs,
                Some (tl (dropWhile (\<lambda>x. x \<noteq> CHR ''='') cs)))
          else (n, None))"

text \<open>
  The second half of \<^verbatim>\<open>parseOne\<close>, once the flag is found: a boolean flag needs no
  argument (\<^verbatim>\<open>-q\<close> sets it, \<^verbatim>\<open>-q=v\<close> converts \<open>v\<close>); any other flag takes the
  text after \<^verbatim>\<open>=\<close> or else the next token, and fails when there is none.
\<close>

definition set_flag :: "'f host \<Rightarrow> 'f FlagSet \<Rightarrow> string \<Rightarrow> 'f cell \<Rightarrow> string option \<Rightarrow> 'f step" where
  "set_flag h f n c v =
     (case c of
        BoolCell b \<Rightarrow>
          (case v of
             Some s \<Rightarrow>
               (case value_Set h c s of
                  None \<Rightarrow> Stop (Some (InvalidBoolean s n)) (spoil n (failed_Set h c s) f)
                | Some c' \<Rightarrow> Seen (assign n c' f))
           | None \<Rightarrow> Seen (assign n (BoolCell True) f))
      | _ \<Rightarrow>
          (case v of
             Some s \<Rightarrow>
               (case value_Set h c s of
                  None \<Rightarrow> Stop (Some (InvalidValue s n)) (spoil n (failed_Set h c s) f)
                | Some c' \<Rightarrow> Seen (assign n c' f))
           | None \<Rightarrow>
               (case args f of
                  [] \<Rightarrow> Stop (Some (GoError (''flag needs an argument: -'' @ n))) f
                | s # rest \<Rightarrow>
                    (case value_Set h c s of
                       None \<Rightarrow>
                         Stop (Some (InvalidValue s n))
                           (spoil n (failed_Set h c s) (f\<lparr>args := rest\<rparr>))
                     | Some c' \<Rightarrow> Seen (assign n c' (f\<lparr>args := rest\<rparr>))))))"

text \<open>
  \<^verbatim>\<open>flag.FlagSet.parseOne\<close> of Go's standard library, which \<^verbatim>\<open>fs.fs.Parse\<close>
  runs. What \<^verbatim>\<open>failf\<close> and \<^verbatim>\<open>usage\<close> print to the flag set's output is not
  modelled.
\<close>

definition parseOne :: "'f host \<Rightarrow> 'f FlagSet \<Rightarrow> 'f step" where
  "parseOne h f =
     (case args f of
        [] \<Rightarrow> Stop None f
      | s # rest \<Rightarrow>
          if length s < 2 \<or> hd s \<noteq> CHR ''-'' then Stop None f
          else if s ! 1 = CHR ''-'' \<and> length s = 2 then Stop None (f\<lparr>args := rest\<rparr>)
          else
            let n0 = drop (if s ! 1 = CHR ''-'' then 2 else 1) s in
            if n0 = [] \<or> hd n0 = CHR ''-'' \<or> hd n0 = CHR ''=''
            then Stop (Some (GoError (''bad flag syntax: '' @ s))) f
            else
              (case Lookup f (fst (cut_value n0)) of
                 None \<Rightarrow>
                   if fst (cut_value n0) = ''help'' \<or> fst (cut_value n0) = ''h''
                   then Stop (Some ErrHelp) (f\<lparr>args := rest\<rparr>)
                   else Stop (Some (GoError (''flag provided but not defined: -''
                                              @ fst (cut_value n0)))) (f\<lparr>args := rest\<rparr>)
               | Some fl \<Rightarrow>
                   set_flag h (f\<lparr>args := rest\<rparr>) (fst (cut_value n0)) (flg_value fl)
                     (snd (cut_value n0))))"

lemma set_flag_Seen_args:
  "set_flag h f n c v = Seen f' \<Longrightarrow> length (args f') \<le> length (args f)"
  by (auto simp: set_flag_def assign_def split: cell.splits option.splits list.splits)

lemma parseOne_Seen_args:
  "parseOne h f = Seen f' \<Longrightarrow> length (args f') < length (args f)"
  by (auto simp: parseOne_def Let_def split: list.splits if_splits option.splits
           dest!: set_flag_Seen_args)

text \<open>
  The loop of \<^verbatim>\<open>flag.FlagSet.Parse\<close>: \<^verbatim>\<open>parseOne\<close> again while it has seen a
  flag; the flag set is \<^verbatim>\<open>ContinueOnError\<close>, so an error is returned.
\<close>

function parse_loop :: "'f host \<Rightarrow> 'f FlagSet \<Rightarrow> error option \<times> 'f FlagSet" where
  "parse_loop h f =
     (case parseOne h f of
        Seen f' \<Rightarrow> parse_loop h f'
      | Stop e f' \<Rightarrow> (e, f'))"
  by pat_completeness auto
termination
  by (relation "measure (\<lambda>(h, f). length (args f))") (auto dest: parseOne_Seen_args)

declare parse_loop.simps [simp del]

text \<open>\<^verbatim>\<open>flag.FlagSet.Parse\<close>: \<^verbatim>\<open>f.args = arguments\<close>, then the loop.\<close>

definition flag_Parse :: "'f host \<Rightarrow> 'f FlagSet \<Rightarrow> string list \<Rightarrow> error option \<times> 'f FlagSet" where
  "flag_Parse h f a = parse_loop h (f\<lparr>args := a\<rparr>)"

section \<open>Lua values and the result table\<close>

text \<open>
  The Lua values the program builds. \<open>LArray\<close> is a table with an array part
  only, as \<^verbatim>\<open>toTable\<close> builds by appending.
\<close>

datatype 'f LValue =
    LBool bool
  | LNumber 'f
  | LString string
  | LArray "'f LValue list"

text \<open>
  The table \<^verbatim>\<open>Parse\<close> returns: the entries set with \<^verbatim>\<open>RawSetString\<close> and the
  array part that \<^verbatim>\<open>Append\<close> extends.
\<close>

record 'f LTable =
  strdict :: "string \<rightharpoonup> 'f LValue"
  array :: "'f LValue list"

text \<open>\<^verbatim>\<open>toTable\<close> of helpers.go.\<close>

definition toTable :: "string list \<Rightarrow> 'f LValue" where
  "toTable s = LArray (map LString s)"

text \<open>
  The value \<^verbatim>\<open>Parse\<close> stores for a cell: \<^verbatim>\<open>lua.LNumber(*value)\<close>,
  \<^verbatim>\<open>lua.LString(*value)\<close>, \<^verbatim>\<open>lua.LBool(*value)\<close>, and \<^verbatim>\<open>value.Table(L)\<close> for
  the three slices. The \<^verbatim>\<open>Table\<close> methods are not among the sources; they are
  modelled from the spec ("ordered sequence", "insertion order = occurrence
  order") as the array of the elements in order.
\<close>

fun cell_LValue :: "'f host \<Rightarrow> 'f cell \<Rightarrow> 'f LValue" where
  "cell_LValue h (BoolCell b) = LBool b"
| "cell_LValue h (IntCell i) = LNumber (itof h i)"
| "cell_LValue h (FloatCell x) = LNumber x"
| "cell_LValue h (StringCell s) = LString s"
| "cell_LValue h (IntSlice xs) = LArray (map (\<lambda>i. LNumber (itof h i)) xs)"
| "cell_LValue h (NumberSlice xs) = LArray (map LNumber xs)"
| "cell_LValue h (StringSlice xs) = toTable xs"

text \<open>
  The loop \<^verbatim>\<open>for f, v := range gf.flags\<close> of \<^verbatim>\<open>Parse\<close>: one entry per
  registered flag, under its name.
\<close>

definition flags_table :: "'f host \<Rightarrow> 'f FlagSet \<Rightarrow> string \<rightharpoonup> 'f LValue" where
  "flags_table h gf = map_of (map (\<lambda>g. (flg_name g, cell_LValue h (flg_value g))) (formal gf))"

section \<open>Positional arguments\<close>

text \<open>
  Modelled from the spec: the coercion of one token to an argument's declared type
  (the parser that \<^verbatim>\<open>getParser\<close> returns is not among the sources): "each consumed
  token is coerced via the Value Coercion Layer using the argument's declared
  type", failing with \<open>TypeMismatch\<close>.
\<close>

definition coerce :: "'f host \<Rightarrow> arg_typ \<Rightarrow> string \<Rightarrow> arg_error + 'f LValue" where
  "coerce h ty s =
     (case ty of
        ArgString \<Rightarrow> Inr (LString s)
      | ArgInt \<Rightarrow> (case atoi h s of None \<Rightarrow> Inl (TypeMismatch s) | Some i \<Rightarrow> Inr (LNumber (itof h i)))
      | ArgNumber \<Rightarrow> (case atof h s of None \<Rightarrow> Inl (TypeMismatch s) | Some x \<Rightarrow> Inr (LNumber x)))"

fun coerce_all :: "'f host \<Rightarrow> arg_typ \<Rightarrow> string list \<Rightarrow> arg_error + 'f LValue list" where
  "coerce_all h ty [] = Inr []"
| "coerce_all h ty (s # ss) =
     (case coerce h ty s of
        Inl e \<Rightarrow> Inl e
      | Inr v \<Rightarrow> (case coerce_all h ty ss of Inl e \<Rightarrow> Inl e | Inr vs \<Rightarrow> Inr (v # vs)))"

text \<open>
  Modelled from the spec: \<^verbatim>\<open>argument.parse\<close>, which is not among the sources. The
  cardinality consumption algorithm: \<open>Exact n\<close> consumes exactly \<open>n\<close> tokens and
  fails with \<open>ArgumentCountError\<close> if fewer remain; \<open>Optional\<close> consumes one token
  if available; \<open>ZeroOrMore\<close> consumes all remaining tokens; \<open>OneOrMore\<close> consumes
  all remaining tokens and fails if there is none. The result is the coerced values
  and the tokens left.
\<close>

definition consume :: "'f host \<Rightarrow> 'f argument \<Rightarrow> nat \<Rightarrow> string list \<Rightarrow> arg_error + ('f LValue list \<times> string list)" where
  "consume h a n toks =
     (case coerce_all h (arg_typ a) (take n toks) of
        Inl e \<Rightarrow> Inl e
      | Inr vs \<Rightarrow> Inr (vs, drop n toks))"

definition arg_parse :: "'f host \<Rightarrow> 'f argument \<Rightarrow> string list \<Rightarrow> arg_error + ('f LValue list \<times> string list)" where
  "arg_parse h a toks =
     (case arg_times a of
        Exact k \<Rightarrow> if length toks < k then Inl ArgumentCountError else consume h a k toks
      | Optional \<Rightarrow> consume h a (if toks = [] then 0 else 1) toks
      | ZeroOrMore \<Rightarrow> consume h a (length toks) toks
      | OneOrMore \<Rightarrow> if toks = [] then Inl ArgumentCountError else consume h a (length toks) toks)"

text \<open>
  The loop \<^verbatim>\<open>for _, arg := range gf.arguments\<close> of \<^verbatim>\<open>Parse\<close>: each argument
  parses the tokens the one before left; an error is returned as
  \<^verbatim>\<open>fmt.Errorf("argument %v: %v", arg.name, err.Error())\<close>; the argument's value
  (\<^verbatim>\<open>arg.toLValue\<close>, modelled from the spec as the array of the collected values)
  is stored under its name.
\<close>

fun parse_arguments ::
  "'f host \<Rightarrow> 'f argument list \<Rightarrow> string list \<Rightarrow> 'f LTable \<Rightarrow> error + (string list \<times> 'f LTable)" where
  "parse_arguments h [] toks t = Inr (toks, t)"
| "parse_arguments h (a # as) toks t =
     (case arg_parse h a toks of
        Inl e \<Rightarrow> Inl (ArgumentError (arg_name a) e)
      | Inr (vs, rest) \<Rightarrow>
          parse_arguments h as rest (t\<lparr>strdict := (strdict t)(arg_name a \<mapsto> LArray vs)\<rparr>))"

section \<open>\<^verbatim>\<open>Parse\<close>\<close>

text \<open>Go's \<^verbatim>\<open>%v\<close> of a \<^verbatim>\<open>[]string\<close>: the elements between brackets, separated by spaces.\<close>

definition fmt_strings :: "string list \<Rightarrow> string" where
  "fmt_strings xs = ''['' @ Join xs '' '' @ '']''"

text \<open>
  \<^verbatim>\<open>Parse\<close> of flagset.go, for a userdata that holds a \<^verbatim>\<open>FlagSet\<close>. An error of
  the flag phase or of an argument is returned (\<^verbatim>\<open>return nil, err\<close>); tokens left
  after the last argument are a Lua error raised with \<^verbatim>\<open>L.RaiseError\<close>, which
  does not return. The \<^verbatim>\<open>default\<close> case of the type switch over the cells cannot
  occur: a cell has one of the seven types. The flag set comes back as the flag phase
  left it.
\<close>

definition Parse :: "'f host \<Rightarrow> 'f FlagSet \<Rightarrow> string list \<Rightarrow> (error + 'f LTable) \<times> 'f FlagSet" where
  "Parse h gf a =
     (case flag_Parse h gf a of
        (Some err, gf') \<Rightarrow> (Inl err, gf')
      | (None, gf') \<Rightarrow>
          let t = \<lparr>strdict = flags_table h gf', array = []\<rparr> in
          if length (arguments gf') = 0
          then (Inr (t\<lparr>array := array t @ map LString (args gf')\<rparr>), gf')
          else
            (case parse_arguments h (arguments gf') (args gf') t of
               Inl e \<Rightarrow> (Inl e, gf')
             | Inr (rest, t') \<Rightarrow>
                 if length rest > 0
                 then (Inl (LuaRaise (''unknown argument: '' @ fmt_strings rest)), gf')
                 else (Inr t', gf')))"

section \<open>\<^verbatim>\<open>Compgen\<close>\<close>

text \<open>
  \<^verbatim>\<open>VisitAll\<close> and \<^verbatim>\<open>Visit\<close> of Go's \<^verbatim>\<open>flag.FlagSet\<close> visit the registered
  flags, and the flags that were set, in lexicographical order of their names.
\<close>

definition VisitAll :: "'f FlagSet \<Rightarrow> string list" where
  "VisitAll f = sort (map flg_name (formal f))"

definition Visit :: "'f FlagSet \<Rightarrow> (string \<times> 'f cell) list" where
  "Visit f = List.map_filter (\<lambda>n. map_option (\<lambda>g. (n, flg_value g)) (Lookup f n)) (sort (actual f))"

text \<open>\<^verbatim>\<open>printFlags\<close> of flagset.go: the names, each after \<^verbatim>\<open>-\<close>, joined with a newline.\<close>

definition printFlags :: "'f FlagSet \<Rightarrow> string" where
  "printFlags f = Join (map (\<lambda>n. ''-'' @ n) (VisitAll f)) [CHR 0x0A]"

text \<open>
  The protected call of a completion callback, \<^verbatim>\<open>L.CallByParam\<close>: its result as a
  string, or \<^verbatim>\<open>os.Exit(1)\<close> when the call fails. Every registration function of a
  flag with a value stores a callback; with \<^verbatim>\<open>nil\<close> the call fails.
\<close>

definition call_compFn ::
  "'f comp_fn option \<Rightarrow> string \<Rightarrow> (string \<times> 'f cell) list \<Rightarrow> string list \<Rightarrow> error + string" where
  "call_compFn fn w tbl raw =
     (case fn of
        None \<Rightarrow> Inl OsExit
      | Some cb \<Rightarrow> (case cb w tbl raw of None \<Rightarrow> Inl OsExit | Some r \<Rightarrow> Inr r))"

text \<open>Go's \<^verbatim>\<open>%T\<close> of the three cells \<^verbatim>\<open>Compgen\<close> has no case for.\<close>

fun type_name :: "'f cell \<Rightarrow> string" where
  "type_name (IntSlice xs) = ''*gluaflag.intslice''"
| "type_name (NumberSlice xs) = ''*gluaflag.numberslice''"
| "type_name (StringSlice xs) = ''*gluaflag.stringslice''"
| "type_name (BoolCell b) = ''*bool''"
| "type_name (IntCell i) = ''*int''"
| "type_name (FloatCell x) = ''*float64''"
| "type_name (StringCell s) = ''*string''"

definition index_panic :: error where
  "index_panic = GoPanic ''runtime error: index out of range''"

definition nil_panic :: error where
  "nil_panic = GoPanic ''runtime error: invalid memory address or nil pointer dereference''"

text \<open>
  The last branch of \<^verbatim>\<open>Compgen\<close> (\<^verbatim>\<open>// argument\<close>): the flag phase runs on the
  flag set itself, over the words after the first; the number of tokens it left
  selects the positional argument whose callback is called.
\<close>

definition Compgen_argument ::
  "'f host \<Rightarrow> 'f FlagSet \<Rightarrow> int \<Rightarrow> string list \<Rightarrow> (error + string) \<times> 'f FlagSet" where
  "Compgen_argument h fs compCWords compWords =
     (case flag_Parse h fs (tl compWords) of
        (Some err, fs') \<Rightarrow> (Inr [], fs')
      | (None, fs') \<Rightarrow>
          let nargs0 = int (length (args fs'));
              nargs = (if nargs0 = int (length (arguments fs')) then nargs0 - 1 else nargs0);
              word = (if compCWords = int (length compWords) then [] else last compWords)
          in if nargs \<ge> int (length (arguments fs')) \<or> nargs < 0 then (Inr [], fs')
             else (call_compFn (Some (arg_compFn (arguments fs' ! nat nargs)))
                     word (Visit fs') compWords, fs'))"

text \<open>
  The type switch of \<^verbatim>\<open>Compgen\<close> on the cell of the flag before the cursor. A
  boolean flag looks at the last word, \<^verbatim>\<open>compWords[len(compWords)-1]\<close>; a string,
  number or integer flag calls its callback with the last word, or with the empty word
  when the cursor is beyond the words; for the three slices (\<^verbatim>\<open>default\<close>) a Lua
  error is raised.
\<close>

definition Compgen_flag ::
  "'f FlagSet \<Rightarrow> 'f flg \<Rightarrow> int \<Rightarrow> string list \<Rightarrow> (error + string) \<times> 'f FlagSet" where
  "Compgen_flag fs v compCWords compWords =
     (case flg_value v of
        BoolCell b \<Rightarrow>
          if last compWords = [] then (Inl index_panic, fs)
          else if hd (last compWords) = CHR ''-'' then (Inr (printFlags fs), fs)
          else (Inr [], fs)
      | StringCell s \<Rightarrow>
          (call_compFn (compFn v)
             (if compCWords = int (length compWords) then [] else last compWords)
             (Visit fs) compWords, fs)
      | FloatCell x \<Rightarrow>
          (call_compFn (compFn v)
             (if compCWords = int (length compWords) then [] else last compWords)
             (Visit fs) compWords, fs)
      | IntCell i \<Rightarrow>
          (call_compFn (compFn v)
             (if compCWords = int (length compWords) then [] else last compWords)
             (Visit fs) compWords, fs)
      | _ \<Rightarrow> (Inl (LuaRaise (''not implemented type: '' @ type_name (flg_value v))), fs))"

text \<open>
  \<^verbatim>\<open>Compgen\<close> of flagset.go. Indexing a slice out of range, taking byte 0 of an
  empty string and reading a field through the \<^verbatim>\<open>nil\<close> that \<^verbatim>\<open>Lookup\<close> returns
  for an unknown name are Go run-time panics. The lookup \<^verbatim>\<open>fs.flags[fl.Name]\<close>
  finds the \<^verbatim>\<open>flg\<close> of every flag that \<^verbatim>\<open>Lookup\<close> found, since the two are
  registered together. The result comes with the flag set as \<^verbatim>\<open>Compgen\<close> left it.
\<close>

definition Compgen ::
  "'f host \<Rightarrow> 'f FlagSet \<Rightarrow> int \<Rightarrow> string list \<Rightarrow> (error + string) \<times> 'f FlagSet" where
  "Compgen h fs compCWords compWords =
     (if compCWords = 1 \<and> length compWords = 1 then (Inr (printFlags fs), fs)
      else if compCWords \<le> int (length compWords) then
        (if compCWords < 1 then (Inl index_panic, fs)
         else
           let prev = compWords ! nat (compCWords - 1) in
           if prev = [] then (Inl index_panic, fs)
           else if hd prev = CHR ''-'' then
             (case Lookup fs (tl prev) of
                None \<Rightarrow> (Inl nil_panic, fs)
              | Some v \<Rightarrow> Compgen_flag fs v compCWords compWords)
           else if last compWords = [] then (Inl index_panic, fs)
           else if hd (last compWords) = CHR ''-'' then (Inr (printFlags fs), fs)
           else Compgen_argument h fs compCWords compWords)
      else (Inr [], fs))"

section \<open>Registration\<close>

text \<open>\<^verbatim>\<open>New\<close>: an empty flag set.\<close>

definition New :: "string \<Rightarrow> 'f FlagSet" where
  "New n = \<lparr>fs_name = n, formal = [], actual = [], args = [], arguments = []\<rparr>"

text \<open>
  \<^verbatim>\<open>flag.FlagSet.Var\<close> followed by \<^verbatim>\<open>gf.flags[name] = &flg{...}\<close>: Go's
  \<^verbatim>\<open>Var\<close> panics when the name is already registered, with a message that starts
  with the name of the flag set when it has one.
\<close>

definition Var :: "'f FlagSet \<Rightarrow> 'f flg \<Rightarrow> error + 'f FlagSet" where
  "Var gf g =
     (case Lookup gf (flg_name g) of
        Some g' \<Rightarrow>
          Inl (GoPanic (if fs_name gf = [] then ''flag redefined: '' @ flg_name g
                        else fs_name gf @ '' flag redefined: '' @ flg_name g))
      | None \<Rightarrow> Inr (gf\<lparr>formal := formal gf @ [g]\<rparr>))"

text \<open>The callback \<^verbatim>\<open>L.OptFunction\<close> falls back to: it returns the empty string.\<close>

definition OptFunction :: "'f comp_fn option \<Rightarrow> 'f comp_fn" where
  "OptFunction cf = (case cf of Some c \<Rightarrow> c | None \<Rightarrow> (\<lambda>w tbl raw. Some []))"

text \<open>
  The registration functions \<^verbatim>\<open>number\<close>, \<^verbatim>\<open>numbers\<close>, \<^verbatim>\<open>integer\<close>,
  \<^verbatim>\<open>integers\<close>, \<^verbatim>\<open>str\<close>, \<^verbatim>\<open>strs\<close> and \<^verbatim>\<open>boolean\<close>, with their Lua
  arguments already checked.
\<close>

definition number :: "'f FlagSet \<Rightarrow> string \<Rightarrow> 'f \<Rightarrow> string \<Rightarrow> 'f comp_fn option \<Rightarrow> error + 'f FlagSet" where
  "number gf n v u cf =
     Var gf \<lparr>flg_name = n, flg_value = FloatCell v, flg_usage = u, compFn = Some (OptFunction cf)\<rparr>"

definition numbers :: "'f FlagSet \<Rightarrow> string \<Rightarrow> string \<Rightarrow> 'f comp_fn option \<Rightarrow> error + 'f FlagSet" where
  "numbers gf n u cf =
     Var gf \<lparr>flg_name = n, flg_value = NumberSlice [], flg_usage = u, compFn = Some (OptFunction cf)\<rparr>"

definition integer :: "'f FlagSet \<Rightarrow> string \<Rightarrow> int \<Rightarrow> string \<Rightarrow> 'f comp_fn option \<Rightarrow> error + 'f FlagSet" where
  "integer gf n v u cf =
     Var gf \<lparr>flg_name = n, flg_value = IntCell v, flg_usage = u, compFn = Some (OptFunction cf)\<rparr>"

definition integers :: "'f FlagSet \<Rightarrow> string \<Rightarrow> string \<Rightarrow> 'f comp_fn option \<Rightarrow> error + 'f FlagSet" where
  "integers gf n u cf =
     Var gf \<lparr>flg_name = n, flg_value = IntSlice [], flg_usage = u, compFn = Some (OptFunction cf)\<rparr>"

definition str :: "'f FlagSet \<Rightarrow> string \<Rightarrow> string \<Rightarrow> string \<Rightarrow> 'f comp_fn option \<Rightarrow> error + 'f FlagSet" where
  "str gf n v u cf =
     Var gf \<lparr>flg_name = n, flg_value = StringCell v, flg_usage = u, compFn = Some (OptFunction cf)\<rparr>"

definition strs :: "'f FlagSet \<Rightarrow> string \<Rightarrow> string \<Rightarrow> 'f comp_fn option \<Rightarrow> error + 'f FlagSet" where
  "strs gf n u cf =
     Var gf \<lparr>flg_name = n, flg_value = StringSlice [], flg_usage = u, compFn = Some (OptFunction cf)\<rparr>"

definition boolean :: "'f FlagSet \<Rightarrow> string \<Rightarrow> bool \<Rightarrow> string \<Rightarrow> error + 'f FlagSet" where
  "boolean gf n v u =
     Var gf \<lparr>flg_name = n, flg_value = BoolCell v, flg_usage = u, compFn = None\<rparr>"

text \<open>
  \<^verbatim>\<open>stringArgument\<close>, \<^verbatim>\<open>intArgument\<close> and \<^verbatim>\<open>numberArgument\<close>: the argument is
  appended to \<^verbatim>\<open>gf.arguments\<close>. The cardinality is what \<^verbatim>\<open>getParser\<close> (not among
  the sources) reads from \<^verbatim>\<open>times\<close>: an integer of at least 1, or one of
  \<^verbatim>\<open>?\<close>, \<^verbatim>\<open>*\<close>, \<^verbatim>\<open>+\<close>; anything else is a Lua error.
\<close>

definition quoted :: "string \<Rightarrow> string" where
  "quoted s = [CHR 0x27] @ s @ [CHR 0x27]"

definition add_argument ::
  "arg_typ \<Rightarrow> 'f FlagSet \<Rightarrow> string \<Rightarrow> cardinality \<Rightarrow> string \<Rightarrow> 'f comp_fn option \<Rightarrow> error + 'f FlagSet" where
  "add_argument ty gf n nargs u cf =
     (if nargs = Exact 0
      then Inl (LuaRaise (''nargs should be an integer or one of '' @ quoted ''?'' @ '', ''
                          @ quoted ''*'' @ '', or '' @ quoted ''+''))
      else Inr (gf\<lparr>arguments := arguments gf @
             [\<lparr>arg_name = n, arg_usage = u, arg_compFn = OptFunction cf, arg_typ = ty, arg_times = nargs\<rparr>]\<rparr>))"

definition stringArgument ::
  "'f FlagSet \<Rightarrow> string \<Rightarrow> cardinality \<Rightarrow> string \<Rightarrow> 'f comp_fn option \<Rightarrow> error + 'f FlagSet" where
  "stringArgument = add_argument ArgString"

definition intArgument ::
  "'f FlagSet \<Rightarrow> string \<Rightarrow> cardinality \<Rightarrow> string \<Rightarrow> 'f comp_fn option \<Rightarrow> error + 'f FlagSet" where
  "intArgument = add_argument ArgInt"

definition numberArgument ::
  "'f FlagSet \<Rightarrow> string \<Rightarrow> cardinality \<Rightarrow> string \<Rightarrow> 'f comp_fn option \<Rightarrow> error + 'f FlagSet" where
  "numberArgument = add_argument ArgNumber"

section \<open>The Lua function \<^verbatim>\<open>parse\<close>\<close>

text \<open>
  A key of a Lua table: a number (\<^verbatim>\<open>lua.LNumber\<close>, a \<^verbatim>\<open>float64\<close>) or a string. A
  number key is modelled by the rational number it holds. \<open>go_int\<close> is Go's
  conversion \<^verbatim>\<open>int(key)\<close>, which truncates toward zero (for a key within the range
  of \<^verbatim>\<open>int\<close>).
\<close>

datatype LKey = KNumber rat | KString string

definition go_int :: "rat \<Rightarrow> int" where
  "go_int q = (if 0 \<le> q then \<lfloor>q\<rfloor> else \<lceil>q\<rceil>)"

text \<open>
  A table argument, as gopher-lua holds it: the array part, whose entry \<open>i\<close> (from 0)
  is the value at the key \<open>i + 1\<close> or nil (\<open>None\<close>), and the entries at all other
  keys, in the order in which \<^verbatim>\<open>ForEach\<close> happens to visit them. Each value is given
  by its \<^verbatim>\<open>String()\<close>, which is all \<^verbatim>\<open>toStringSlice\<close> reads of it.
\<close>

record arg_table =
  array_part :: "string option list"
  dict_part :: "(LKey \<times> string) list"

text \<open>
  \<^verbatim>\<open>RawGet\<close> of a key that is not an index of the array part, as key 0 is.
\<close>

definition RawGet :: "arg_table \<Rightarrow> LKey \<Rightarrow> string option" where
  "RawGet t k = map_of (dict_part t) k"

text \<open>
  \<^verbatim>\<open>ForEach\<close>: the array part by ascending index, without its nil entries, then the
  other entries.
\<close>

definition ForEach :: "arg_table \<Rightarrow> (LKey \<times> string) list" where
  "ForEach t =
     List.map_filter (\<lambda>(i, v). map_option (\<lambda>x. (KNumber (of_nat i), x)) v)
       (enumerate 1 (array_part t))
     @ dict_part t"

text \<open>\<^verbatim>\<open>toStringSlice\<close> of helpers.go.\<close>

definition toStringSlice :: "arg_table \<Rightarrow> string list" where
  "toStringSlice t =
     (case RawGet t (KNumber 0) of None \<Rightarrow> [] | Some zv \<Rightarrow> [zv])
     @ map snd (filter (\<lambda>(k, v). case k of KNumber key \<Rightarrow> \<not> go_int key < 1 | KString s \<Rightarrow> False)
                  (ForEach t))"

text \<open>
  The Lua function \<^verbatim>\<open>parse\<close>: \<^verbatim>\<open>Parse(L, ud, a[1:len(a)])\<close>. The slice expression
  panics when \<open>a\<close> is empty; an error that \<^verbatim>\<open>Parse\<close> returns is raised as a Lua
  error with its message (\<open>raised\<close>; an error whose message the model does not spell
  out stays as it is).
\<close>

fun raised :: "error \<Rightarrow> error" where
  "raised (GoError m) = LuaRaise m"
| "raised e = e"

definition parse :: "'f host \<Rightarrow> 'f FlagSet \<Rightarrow> arg_table \<Rightarrow> (error + 'f LTable) \<times> 'f FlagSet" where
  "parse h gf t =
     (let a = toStringSlice t in
      if length a < 1 then (Inl (GoPanic ''runtime error: slice bounds out of range''), gf)
      else
        (case Parse h gf (drop 1 a) of
           (Inl err, gf') \<Rightarrow> (Inl (raised err), gf')
         | (Inr tbl, gf') \<Rightarrow> (Inr tbl, gf')))"

section \<open>Notions used in the statements\<close>

text \<open>The cell of the flag registered under a name.\<close>

definition cell_of :: "'f FlagSet \<Rightarrow> string \<Rightarrow> 'f cell option" where
  "cell_of f n = map_option flg_value (Lookup f n)"

text \<open>
  A name that \<^verbatim>\<open>parseOne\<close> reads back from the token \<^verbatim>\<open>-name\<close>: not empty, not
  starting with \<^verbatim>\<open>-\<close> or \<^verbatim>\<open>=\<close>, and without \<^verbatim>\<open>=\<close>.
\<close>

definition flag_name_ok :: "string \<Rightarrow> bool" where
  "flag_name_ok n = (n \<noteq> [] \<and> hd n \<noteq> CHR ''-'' \<and> hd n \<noteq> CHR ''='' \<and> CHR ''='' \<notin> set n)"



text \<open>
  A host for the examples: decimal integers with an optional sign, a \<^verbatim>\<open>float64\<close>
  that holds integers only, and zero as the value of a failed conversion.
\<close>

definition digit_val :: "char \<Rightarrow> nat option" where
  "digit_val c = (if CHR ''0'' \<le> c \<and> c \<le> CHR ''9'' then Some (of_char c - 48) else None)"

fun digits_val :: "nat \<Rightarrow> string \<Rightarrow> nat option" where
  "digits_val acc [] = Some acc"
| "digits_val acc (c # cs) =
     (case digit_val c of None \<Rightarrow> None | Some d \<Rightarrow> digits_val (10 * acc + d) cs)"

definition dec_nat :: "string \<Rightarrow> nat option" where
  "dec_nat s = (if s = [] then None else digits_val 0 s)"

definition dec_int :: "string \<Rightarrow> int option" where
  "dec_int s =
     (case s of
        [] \<Rightarrow> None
      | c # cs \<Rightarrow>
          if c = CHR ''-'' then map_option (\<lambda>n. - int n) (dec_nat cs)
          else if c = CHR ''+'' then map_option int (dec_nat cs)
          else map_option int (dec_nat s))"

definition dec_host :: "int host" where
  "dec_host = \<lparr>atoi = dec_int, atof = dec_int, itof = id,
                atoi_err = (\<lambda>s. 0), atof_err = (\<lambda>s. 0)\<rparr>"

text \<open>The flag set of the tests: one int-sequence flag \<^verbatim>\<open>times\<close>.\<close>

definition times_flags :: "int FlagSet" where
  "times_flags = \<lparr>fs_name = ''prog'',
     formal = [\<lparr>flg_name = ''times'', flg_value = IntSlice [], flg_usage = ''Number help string'',
                compFn = Some (OptFunction None)\<rparr>],
     actual = [], args = [], arguments = []\<rparr>"

text \<open>The flag set of the tests with one number flag \<^verbatim>\<open>times\<close>, default 1.\<close>

definition number_flags :: "int FlagSet" where
  "number_flags = \<lparr>fs_name = ''prog'',
     formal = [\<lparr>flg_name = ''times'', flg_value = FloatCell 1, flg_usage = ''Number help string'',
                compFn = Some (OptFunction None)\<rparr>],
     actual = [], args = [], arguments = []\<rparr>"

text \<open>A flag set with a flag of each scalar kind and a string-sequence flag.\<close>

definition mixed_flags :: "int FlagSet" where
  "mixed_flags = \<lparr>fs_name = ''prog'',
     formal = [\<lparr>flg_name = ''q'', flg_value = BoolCell False, flg_usage = ''Bool help string'',
                compFn = None\<rparr>,
               \<lparr>flg_name = ''count'', flg_value = IntCell 1, flg_usage = ''Int help string'',
                compFn = Some (OptFunction None)\<rparr>,
               \<lparr>flg_name = ''name'', flg_value = StringCell ''foo'', flg_usage = ''String help string'',
                compFn = Some (OptFunction None)\<rparr>,
               \<lparr>flg_name = ''times'', flg_value = FloatCell 1, flg_usage = ''Number help string'',
                compFn = Some (OptFunction None)\<rparr>,
               \<lparr>flg_name = ''tags'', flg_value = StringSlice [], flg_usage = ''Strings help string'',
                compFn = Some (OptFunction None)\<rparr>],
     actual = [], args = [], arguments = []\<rparr>"

text \<open>A flag set with a boolean flag and a flag of each sequence kind.\<close>

definition seq_flags :: "int FlagSet" where
  "seq_flags = \<lparr>fs_name = ''prog'',
     formal = [\<lparr>flg_name = ''q'', flg_value = BoolCell False, flg_usage = ''Bool help string'',
                compFn = None\<rparr>,
               \<lparr>flg_name = ''times'', flg_value = IntSlice [], flg_usage = ''Integers help string'',
                compFn = Some (OptFunction None)\<rparr>,
               \<lparr>flg_name = ''ratio'', flg_value = NumberSlice [], flg_usage = ''Numbers help string'',
                compFn = Some (OptFunction None)\<rparr>,
               \<lparr>flg_name = ''tags'', flg_value = StringSlice [], flg_usage = ''Strings help string'',
                compFn = Some (OptFunction None)\<rparr>],
     actual = [], args = [], arguments = []\<rparr>"

text \<open>
  The flag phase after \<open>k\<close> flags: \<open>k\<close> calls of \<^verbatim>\<open>parseOne\<close> that each saw a flag,
  and the flag set they left (\<open>None\<close> when one of them stopped the loop).
\<close>

fun after_flags :: "'f host \<Rightarrow> nat \<Rightarrow> 'f FlagSet \<Rightarrow> 'f FlagSet option" where
  "after_flags h 0 f = Some f"
| "after_flags h (Suc k) f =
     (case parseOne h f of Seen f' \<Rightarrow> after_flags h k f' | Stop e f' \<Rightarrow> None)"

text \<open>A flag set with one positional argument: exactly one string.\<close>

definition file_flags :: "int FlagSet" where
  "file_flags = \<lparr>fs_name = ''prog'', formal = [], actual = [], args = [],
     arguments = [\<lparr>arg_name = ''file'', arg_usage = ''File to read'', arg_compFn = OptFunction None,
                    arg_typ = ArgString, arg_times = Exact 1\<rparr>]\<rparr>"

text \<open>
  A flag set for the completion examples: the boolean flag \<^verbatim>\<open>q\<close>, the string flag
  \<^verbatim>\<open>name\<close> with a completion callback, and the positional argument \<^verbatim>\<open>mr\<close> with
  one.
\<close>

definition comp_flags :: "int FlagSet" where
  "comp_flags = \<lparr>fs_name = ''subcommand'',
     formal = [\<lparr>flg_name = ''q'', flg_value = BoolCell False, flg_usage = ''Bool help string'',
                compFn = None\<rparr>,
               \<lparr>flg_name = ''name'', flg_value = StringCell ''foo'', flg_usage = ''String help string'',
                compFn = Some (\<lambda>w tbl raw. Some ''fii foo fum'')\<rparr>],
     actual = [], args = [],
     arguments = [\<lparr>arg_name = ''mr'', arg_usage = ''Title'',
                    arg_compFn = (\<lambda>w tbl raw. Some ''mr miss mrs''),
                    arg_typ = ArgString, arg_times = Exact 1\<rparr>]\<rparr>"


















section \<open>The example flag sets, and evaluating the model on them\<close>

text \<open>Each example flag set is what the registration functions build.\<close>

lemma times_flags_registered:
  "integers (New ''prog'') ''times'' ''Number help string'' None = Inr times_flags"
  by (simp add: integers_def Var_def New_def Lookup_def times_flags_def)

lemma number_flags_registered:
  "number (New ''prog'') ''times'' 1 ''Number help string'' None = Inr number_flags"
  by (simp add: number_def Var_def New_def Lookup_def number_flags_def)

lemma mixed_flags_registered:
  "(case boolean (New ''prog'') ''q'' False ''Bool help string'' of Inl e \<Rightarrow> None | Inr f \<Rightarrow>
     (case integer f ''count'' 1 ''Int help string'' None of Inl e \<Rightarrow> None | Inr f \<Rightarrow>
       (case str f ''name'' ''foo'' ''String help string'' None of Inl e \<Rightarrow> None | Inr f \<Rightarrow>
         (case number f ''times'' 1 ''Number help string'' None of Inl e \<Rightarrow> None | Inr f \<Rightarrow>
           (case strs f ''tags'' ''Strings help string'' None of Inl e \<Rightarrow> None | Inr f \<Rightarrow> Some f)))))
   = Some mixed_flags"
  by (simp add: boolean_def integer_def str_def number_def strs_def Var_def New_def Lookup_def
        mixed_flags_def)

lemma seq_flags_registered:
  "(case boolean (New ''prog'') ''q'' False ''Bool help string'' of Inl e \<Rightarrow> None | Inr f \<Rightarrow>
     (case integers f ''times'' ''Integers help string'' None of Inl e \<Rightarrow> None | Inr f \<Rightarrow>
       (case numbers f ''ratio'' ''Numbers help string'' None of Inl e \<Rightarrow> None | Inr f \<Rightarrow>
         (case strs f ''tags'' ''Strings help string'' None of Inl e \<Rightarrow> None | Inr f \<Rightarrow> Some f))))
   = Some seq_flags"
  by (simp add: boolean_def integers_def numbers_def strs_def Var_def New_def Lookup_def
        seq_flags_def)

lemma file_flags_registered:
  "stringArgument (New ''prog'') ''file'' (Exact 1) ''File to read'' None = Inr file_flags"
  by (simp add: stringArgument_def add_argument_def New_def file_flags_def)

lemma comp_flags_registered:
  "Option.bind (Some (New ''subcommand''))
     (\<lambda>f. case boolean f ''q'' False ''Bool help string'' of Inl e \<Rightarrow> None | Inr f \<Rightarrow>
       (case str f ''name'' ''foo'' ''String help string'' (Some (\<lambda>w tbl raw. Some ''fii foo fum'')) of
          Inl e \<Rightarrow> None | Inr f \<Rightarrow>
            (case stringArgument f ''mr'' (Exact 1) ''Title'' (Some (\<lambda>w tbl raw. Some ''mr miss mrs'')) of
              Inl e \<Rightarrow> None | Inr f \<Rightarrow> Some f)))
   = Some comp_flags"
  by (simp add: boolean_def str_def stringArgument_def add_argument_def Var_def New_def Lookup_def
        comp_flags_def OptFunction_def)

text \<open>The definitions to unfold when the flag phase is run on an example.\<close>

lemmas flag_phase_defs =
  flag_Parse_def parse_loop.simps parseOne_def set_flag_def value_Set_def assign_def
  cut_value_def Lookup_def Let_def

lemmas dec_host_defs = dec_host_def dec_int_def dec_nat_def digit_val_def

section \<open>What the flag phase leaves unchanged\<close>

lemma store_names: "map flg_name (store n c gs) = map flg_name gs"
  by (induction gs) auto

lemma assign_frame:
  "args (assign n c f) = args f" "arguments (assign n c f) = arguments f"
  "map flg_name (formal (assign n c f)) = map flg_name (formal f)"
  "args (spoil n c f) = args f" "arguments (spoil n c f) = arguments f"
  "map flg_name (formal (spoil n c f)) = map flg_name (formal f)"
  by (simp_all add: assign_def spoil_def store_names)

lemma set_flag_frame:
  assumes "set_flag h f n c v = Seen f' \<or> set_flag h f n c v = Stop e f'"
  shows "suffix (args f') (args f) \<and> arguments f' = arguments f
         \<and> map flg_name (formal f') = map flg_name (formal f)"
  using assms
  by (auto simp: set_flag_def assign_frame suffix_Cons split: cell.splits option.splits list.splits)

lemma parseOne_frame:
  assumes "parseOne h f = Seen f' \<or> parseOne h f = Stop e f'"
  shows "suffix (args f') (args f) \<and> arguments f' = arguments f
         \<and> map flg_name (formal f') = map flg_name (formal f)"
proof (cases "args f")
  case Nil
  with assms show ?thesis by (auto simp: parseOne_def)
next
  case (Cons s rest)
  let ?f1 = "f\<lparr>args := rest\<rparr>"
  have f1: "suffix (args ?f1) (args f)" "arguments ?f1 = arguments f" "formal ?f1 = formal f"
    using Cons by (simp_all add: suffix_Cons)
  show ?thesis
    using assms Cons f1
    by (auto simp: parseOne_def Let_def suffix_Cons split: if_splits option.splits
             dest!: set_flag_frame)
qed

lemma parse_loop_frame:
  "parse_loop h f = (e, f') \<Longrightarrow>
     suffix (args f') (args f) \<and> arguments f' = arguments f
     \<and> map flg_name (formal f') = map flg_name (formal f)"
proof (induction h f rule: parse_loop.induct)
  case (1 h f)
  show ?case
  proof (cases "parseOne h f")
    case (Seen g)
    with 1 have "suffix (args f') (args g) \<and> arguments f' = arguments g
         \<and> map flg_name (formal f') = map flg_name (formal g)" 
      by (simp add: parse_loop.simps[of h f])
    moreover from Seen have "suffix (args g) (args f) \<and> arguments g = arguments f
         \<and> map flg_name (formal g) = map flg_name (formal f)"
      using parseOne_frame by blast
    ultimately show ?thesis by (auto intro: suffix_order.trans)
  next
    case (Stop e' g)
    with 1 have "f' = g" by (simp add: parse_loop.simps[of h f])
    with Stop show ?thesis using parseOne_frame by blast
  qed
qed

section \<open>The kinds of the cells do not change\<close>


lemma failed_Set_type_name: "type_name (failed_Set h c s) = type_name c"
  by (cases c) simp_all














section \<open>A flag with a value, occurring repeatedly\<close>



lemma store_store: "store n c (store n c' gs) = store n c gs"
  by (induction gs) auto


lemma cut_value_plain: "flag_name_ok n \<Longrightarrow> cut_value n = (n, None)"
  by (cases n) (auto simp: cut_value_def flag_name_ok_def)




lemma flags_table_cell_of: "flags_table h f n = map_option (cell_LValue h) (cell_of f n)"
proof -
  have "map_of (map (\<lambda>g. (flg_name g, F g)) gs) n = map_option F (find (\<lambda>g. flg_name g = n) gs)"
    for F :: "'a flg \<Rightarrow> 'a LValue" and gs
    by (induction gs) auto
  then show ?thesis by (simp add: flags_table_def cell_of_def Lookup_def option.map_comp comp_def)
qed

section \<open>The flag phase, use by use\<close>





















section \<open>Sequence flags accumulate\<close>








section \<open>\<^verbatim>\<open>Parse\<close> with no positional argument\<close>

lemma flags_table_dom: "dom (flags_table h f) = flg_name ` set (formal f)"
  by (simp add: flags_table_def dom_map_of_conv_image_fst image_image)

text \<open>
  C1. For every flag set with no positional argument registered, \<^verbatim>\<open>Parse\<close> fails
  only with the error of the flag phase; when the flag phase succeeds, \<^verbatim>\<open>Parse\<close>
  returns the table that has exactly the registered flags' names as its string keys and
  maps each to the value of its cell (a boolean, a number, a string, or the sequence of
  the elements in order), with all tokens the flag phase left (a suffix of the vector)
  appended verbatim and in order as the table's sequence.
\<close>

theorem Parse_without_arguments:
  assumes "arguments gf = []"
  shows "(case flag_Parse h gf a of
            (Some err, gf') \<Rightarrow> Parse h gf a = (Inl err, gf')
          | (None, gf') \<Rightarrow>
              (\<exists>t. Parse h gf a = (Inr t, gf')
                 \<and> array t = map LString (args gf')
                 \<and> suffix (args gf') a
                 \<and> dom (strdict t) = flg_name ` set (formal gf)
                 \<and> (\<forall>n. case cell_of gf' n of
                           None \<Rightarrow> strdict t n = None
                         | Some (BoolCell b) \<Rightarrow> strdict t n = Some (LBool b)
                         | Some (IntCell i) \<Rightarrow> strdict t n = Some (LNumber (itof h i))
                         | Some (FloatCell x) \<Rightarrow> strdict t n = Some (LNumber x)
                         | Some (StringCell s) \<Rightarrow> strdict t n = Some (LString s)
                         | Some (IntSlice xs) \<Rightarrow>
                             strdict t n = Some (LArray (map (\<lambda>i. LNumber (itof h i)) xs))
                         | Some (NumberSlice xs) \<Rightarrow> strdict t n = Some (LArray (map LNumber xs))
                         | Some (StringSlice xs) \<Rightarrow> strdict t n = Some (LArray (map LString xs)))))"
proof (cases "flag_Parse h gf a")
  case (Pair e gf')
  then have l: "parse_loop h (gf\<lparr>args := a\<rparr>) = (e, gf')" by (simp add: flag_Parse_def)
  from parse_loop_frame[OF l] assms
  have fr: "suffix (args gf') a" "arguments gf' = []"
    "map flg_name (formal gf') = map flg_name (formal gf)" by simp_all
  from fr(3) have "set (map flg_name (formal gf')) = set (map flg_name (formal gf))" by simp
  then have d: "flg_name ` set (formal gf') = flg_name ` set (formal gf)" by simp
  show ?thesis
  proof (cases e)
    case None
    with Pair fr d show ?thesis
      by (simp add: Parse_def Let_def flags_table_dom flags_table_cell_of toTable_def
            split: option.split cell.split)
  next
    case (Some err)
    with Pair show ?thesis by (simp add: Parse_def)
  qed
qed

theorem Parse_without_arguments_witness:
  "arguments mixed_flags = []
   \<and> (\<exists>t gf'. Parse dec_host mixed_flags
                 [''-q'', ''-count'', ''3'', ''-name'', ''bar'', ''-times'', ''2'',
                  ''-tags'', ''a'', ''-tags'', ''b'', ''foo'', ''-x'']
               = (Inr t, gf')
        \<and> strdict t ''q'' = Some (LBool True)
        \<and> strdict t ''count'' = Some (LNumber 3)
        \<and> strdict t ''name'' = Some (LString ''bar'')
        \<and> strdict t ''times'' = Some (LNumber 2)
        \<and> strdict t ''tags'' = Some (LArray [LString ''a'', LString ''b''])
        \<and> strdict t ''foo'' = None
        \<and> array t = [LString ''foo'', LString ''-x''])"
proof -
  let ?a = "[''-q'', ''-count'', ''3'', ''-name'', ''bar'', ''-times'', ''2'',
             ''-tags'', ''a'', ''-tags'', ''b'', ''foo'', ''-x'']"
  let ?g = "\<lparr>fs_name = ''prog'',
     formal = [\<lparr>flg_name = ''q'', flg_value = BoolCell True, flg_usage = ''Bool help string'',
                compFn = None\<rparr>,
               \<lparr>flg_name = ''count'', flg_value = IntCell 3, flg_usage = ''Int help string'',
                compFn = Some (OptFunction None)\<rparr>,
               \<lparr>flg_name = ''name'', flg_value = StringCell ''bar'', flg_usage = ''String help string'',
                compFn = Some (OptFunction None)\<rparr>,
               \<lparr>flg_name = ''times'', flg_value = FloatCell (2::int), flg_usage = ''Number help string'',
                compFn = Some (OptFunction None)\<rparr>,
               \<lparr>flg_name = ''tags'', flg_value = StringSlice [''a'', ''b''], flg_usage = ''Strings help string'',
                compFn = Some (OptFunction None)\<rparr>],
     actual = [''tags'', ''times'', ''name'', ''count'', ''q''], args = [''foo'', ''-x''],
     arguments = []\<rparr>"
  have a: "arguments mixed_flags = []" by (simp add: mixed_flags_def)
  have p: "flag_Parse dec_host mixed_flags ?a = (None, ?g)"
    by (simp add: mixed_flags_def flag_phase_defs dec_host_defs)
  have c: "cell_of ?g ''q'' = Some (BoolCell True)" "cell_of ?g ''count'' = Some (IntCell 3)"
    "cell_of ?g ''name'' = Some (StringCell ''bar'')" "cell_of ?g ''times'' = Some (FloatCell 2)"
    "cell_of ?g ''tags'' = Some (StringSlice [''a'', ''b''])" "cell_of ?g ''foo'' = None"
    by (simp_all add: cell_of_def Lookup_def)
  from Parse_without_arguments[OF a, of dec_host ?a]
  obtain t where t: "Parse dec_host mixed_flags ?a = (Inr t, ?g)"
    "array t = map LString (args ?g)"
    and m: "\<And>n. case cell_of ?g n of
                           None \<Rightarrow> strdict t n = None
                         | Some (BoolCell b) \<Rightarrow> strdict t n = Some (LBool b)
                         | Some (IntCell i) \<Rightarrow> strdict t n = Some (LNumber (itof dec_host i))
                         | Some (FloatCell x) \<Rightarrow> strdict t n = Some (LNumber x)
                         | Some (StringCell s) \<Rightarrow> strdict t n = Some (LString s)
                         | Some (IntSlice xs) \<Rightarrow>
                             strdict t n = Some (LArray (map (\<lambda>i. LNumber (itof dec_host i)) xs))
                         | Some (NumberSlice xs) \<Rightarrow> strdict t n = Some (LArray (map LNumber xs))
                         | Some (StringSlice xs) \<Rightarrow> strdict t n = Some (LArray (map LString xs))"
    unfolding p by auto
  from m[of "''q''"] m[of "''count''"] m[of "''name''"] m[of "''times''"] m[of "''tags''"]
    m[of "''foo''"] c
  have "strdict t ''q'' = Some (LBool True)" "strdict t ''count'' = Some (LNumber 3)"
    "strdict t ''name'' = Some (LString ''bar'')" "strdict t ''times'' = Some (LNumber 2)"
    "strdict t ''tags'' = Some (LArray [LString ''a'', LString ''b''])" "strdict t ''foo'' = None"
    by (simp_all add: dec_host_def)
  with t a show ?thesis by simp
qed

section \<open>An unknown flag\<close>

lemma Lookup_None_names: "Lookup f n = None \<longleftrightarrow> n \<notin> set (map flg_name (formal f))"
  by (auto simp: Lookup_def find_None_iff)

lemma after_flags_loop:
  "after_flags h k f0 = Some f \<Longrightarrow>
     parse_loop h f0 = parse_loop h f \<and> map flg_name (formal f) = map flg_name (formal f0)"
proof (induction k arbitrary: f0)
  case 0
  then show ?case by simp
next
  case (Suc k)
  then obtain f1 where s: "parseOne h f0 = Seen f1" and r: "after_flags h k f1 = Some f"
    by (auto split: step.splits)
  from parseOne_frame[of h f0 f1] s
  have "map flg_name (formal f1) = map flg_name (formal f0)" by simp
  with Suc.IH[OF r] s show ?case by (simp add: parse_loop.simps[of h f0])
qed

lemma parseOne_unknown_flag:
  assumes "args f = tok # rest" and "tok = ''-'' @ n \<or> tok = ''--'' @ n" and "flag_name_ok n"
    and "Lookup f n = None" and "n \<noteq> ''help''" and "n \<noteq> ''h''"
  shows "parseOne h f
         = Stop (Some (GoError (''flag provided but not defined: -'' @ n))) (f\<lparr>args := rest\<rparr>)"
proof -
  from assms(3) obtain c cs where n: "n = c # cs" "c \<noteq> CHR ''-''" "c \<noteq> CHR ''=''"
    by (cases n) (auto simp: flag_name_ok_def)
  show ?thesis
    using assms(1,2,4,5,6) n cut_value_plain[OF assms(3)]
    by (auto simp: parseOne_def)
qed

text \<open>
  C3 (amended). When the flag phase, after any number of flags, reaches a token
  \<^verbatim>\<open>-name\<close> or \<^verbatim>\<open>--name\<close> whose name is not registered and is neither
  \<^verbatim>\<open>help\<close> nor \<^verbatim>\<open>h\<close>, \<^verbatim>\<open>Parse\<close> fails with the error
  \<^verbatim>\<open>flag provided but not defined: -name\<close>; the caller receives the error and no
  table.
\<close>

theorem unknown_flag_fails:
  assumes "after_flags h k (gf\<lparr>args := a\<rparr>) = Some f"
    and "args f = tok # rest" and "tok = ''-'' @ n \<or> tok = ''--'' @ n" and "flag_name_ok n"
    and "Lookup gf n = None" and "n \<noteq> ''help''" and "n \<noteq> ''h''"
  shows "Parse h gf a
         = (Inl (GoError (''flag provided but not defined: -'' @ n)), f\<lparr>args := rest\<rparr>)"
proof -
  from after_flags_loop[OF assms(1)]
  have l: "parse_loop h (gf\<lparr>args := a\<rparr>) = parse_loop h f"
    and nm: "map flg_name (formal f) = map flg_name (formal gf)" by simp_all
  from assms(5) nm have "Lookup f n = None" by (simp add: Lookup_None_names)
  from parseOne_unknown_flag[OF assms(2,3,4) this assms(6,7)]
  have "parse_loop h f
        = (Some (GoError (''flag provided but not defined: -'' @ n)), f\<lparr>args := rest\<rparr>)"
    by (simp add: parse_loop.simps[of h f])
  with l show ?thesis by (simp add: Parse_def flag_Parse_def)
qed

theorem unknown_flag_fails_witness:
  "Parse dec_host number_flags [''-foo'']
     = (Inl (GoError ''flag provided but not defined: -foo''), number_flags\<lparr>args := []\<rparr>)
   \<and> fst (Parse dec_host number_flags [''-times'', ''2'', ''--foo'', ''bar''])
     = Inl (GoError ''flag provided but not defined: -foo'')"
proof -
  have ok: "flag_name_ok ''foo''" by (simp add: flag_name_ok_def)
  have l: "Lookup number_flags ''foo'' = None" by (simp add: Lookup_def number_flags_def)
  have a0: "after_flags dec_host 0 (number_flags\<lparr>args := [''-foo'']\<rparr>)
            = Some (number_flags\<lparr>args := [''-foo'']\<rparr>)" by simp
  have a1: "after_flags dec_host 1 (number_flags\<lparr>args := [''-times'', ''2'', ''--foo'', ''bar'']\<rparr>)
            = Some (assign ''times'' (FloatCell 2) (number_flags\<lparr>args := [''--foo'', ''bar'']\<rparr>))"
    by (simp add: number_flags_def flag_phase_defs dec_host_defs)
  have "Parse dec_host number_flags [''-foo'']
     = (Inl (GoError ''flag provided but not defined: -foo''), number_flags\<lparr>args := []\<rparr>)"
    using unknown_flag_fails[OF a0 _ _ ok l, of "''-foo''" "[]"] by simp
  moreover have "fst (Parse dec_host number_flags [''-times'', ''2'', ''--foo'', ''bar''])
     = Inl (GoError ''flag provided but not defined: -foo'')"
    using unknown_flag_fails[OF a1 _ _ ok l, of "''--foo''" "[''bar'']"] by (simp add: assign_def)
  ultimately show ?thesis by simp
qed

text \<open>
  C3 as stated fails for the names \<^verbatim>\<open>help\<close> and \<^verbatim>\<open>h\<close>: with no flag \<^verbatim>\<open>h\<close>
  registered, \<^verbatim>\<open>-h\<close> makes \<^verbatim>\<open>Parse\<close> fail with \<^verbatim>\<open>flag: help requested\<close>.
\<close>

theorem unknown_flag_counterexample:
  "Lookup number_flags ''h'' = None
   \<and> fst (Parse dec_host number_flags [''-h'']) = Inl (GoError ''flag: help requested'')
   \<and> fst (Parse dec_host number_flags [''-h'']) \<noteq> Inl (GoError ''flag provided but not defined: -h'')"
  by (simp add: Parse_def number_flags_def flag_phase_defs ErrHelp_def)

section \<open>Tokens left after the last positional argument\<close>

lemma Parse_leftover_raises:
  assumes "flag_Parse h gf a = (None, gf')" and "arguments gf' \<noteq> []"
    and "parse_arguments h (arguments gf') (args gf') \<lparr>strdict = flags_table h gf', array = []\<rparr>
         = Inr (rest, t)" and "rest \<noteq> []"
  shows "Parse h gf a = (Inl (LuaRaise (''unknown argument: '' @ fmt_strings rest)), gf')"
  using assms by (simp add: Parse_def Let_def)

text \<open>
  C4. With the positional argument \<^verbatim>\<open>file\<close> (exactly one string) registered, the
  vector \<^verbatim>\<open>a b\<close> leaves the token \<^verbatim>\<open>b\<close> after the last argument: \<^verbatim>\<open>Parse\<close>
  does not return an error value, it raises the Lua error \<^verbatim>\<open>unknown argument: [b]\<close>.
\<close>

theorem Parse_leftover_is_raised:
  "fst (Parse dec_host file_flags [''a'', ''b'']) = Inl (LuaRaise ''unknown argument: [b]'')"
  by (simp add: Parse_def file_flags_def flag_phase_defs arg_parse_def consume_def coerce_def
        fmt_strings_def)

section \<open>\<^verbatim>\<open>Compgen\<close>: the cases\<close>

text \<open>
  C5 (amended). For every flag set, \<^verbatim>\<open>Compgen\<close> with cursor index 1 and a word
  sequence of exactly one word returns the list of all registered flag names, in
  lexicographical order, each prefixed with \<^verbatim>\<open>-\<close>, joined with a newline; the flag
  set is unchanged.
\<close>

theorem Compgen_first_word:
  "Compgen h fs 1 [w]
   = (Inr (Join (map (\<lambda>n. ''-'' @ n) (sort (map flg_name (formal fs)))) [CHR 0x0A]), fs)"
  by (simp add: Compgen_def printFlags_def VisitAll_def)

theorem Compgen_first_word_witness:
  "Compgen dec_host comp_flags 1 [''subcommand'']
   = (Inr (''-name'' @ [CHR 0x0A] @ ''-q''), comp_flags)"
  using Compgen_first_word[of dec_host comp_flags "''subcommand''"]
  by (simp add: comp_flags_def)

text \<open>
  C5 as stated fails: with the flags \<^verbatim>\<open>name\<close> and \<^verbatim>\<open>q\<close> the result is not the
  space-joined list \<^verbatim>\<open>-name -q\<close>.
\<close>

theorem Compgen_first_word_counterexample:
  "fst (Compgen dec_host comp_flags 1 [''subcommand'']) \<noteq> Inr (Join [''-name'', ''-q''] '' '')"
  by (simp add: Compgen_def printFlags_def VisitAll_def comp_flags_def)

subsection \<open>The word before the cursor is an unknown flag\<close>

lemma Compgen_unknown_flag:
  assumes "\<not> (c = 1 \<and> length ws = 1)" and "1 \<le> c" and "c \<le> int (length ws)"
    and "ws ! nat (c - 1) = ''-'' @ n" and "Lookup fs n = None"
  shows "Compgen h fs c ws = (Inl nil_panic, fs)"
  using assms by (simp add: Compgen_def)

text \<open>
  C6. With no flag \<^verbatim>\<open>foo\<close> registered, \<^verbatim>\<open>Compgen\<close> at cursor index 2 of the words
  \<^verbatim>\<open>subcommand -foo\<close> does not return the empty string: it reads \<^verbatim>\<open>fl.Name\<close>
  through the \<^verbatim>\<open>nil\<close> that \<^verbatim>\<open>Lookup\<close> returned and panics.
\<close>

theorem Compgen_unknown_flag_panics:
  "Lookup comp_flags ''foo'' = None
   \<and> Compgen dec_host comp_flags 2 [''subcommand'', ''-foo'']
     = (Inl (GoPanic ''runtime error: invalid memory address or nil pointer dereference''), comp_flags)"
  using Compgen_unknown_flag[of 2 "[''subcommand'', ''-foo'']" "''foo''" comp_flags dec_host]
  by (simp add: Lookup_def comp_flags_def nil_panic_def)

subsection \<open>The word before the cursor is a boolean flag\<close>

lemma Compgen_boolean_flag:
  assumes "\<not> (c = 1 \<and> length ws = 1)" and "1 \<le> c" and "c \<le> int (length ws)"
    and "ws ! nat (c - 1) = ''-'' @ n" and "cell_of fs n = Some (BoolCell b)"
    and "last ws \<noteq> []"
  shows "Compgen h fs c ws = (Inr (if hd (last ws) = CHR ''-'' then printFlags fs else []), fs)"
  using assms by (auto simp: Compgen_def Compgen_flag_def cell_of_def)

text \<open>
  C7. With the boolean flag \<^verbatim>\<open>q\<close> before the cursor and an empty last word,
  \<^verbatim>\<open>Compgen\<close> does not return the empty string: it takes byte 0 of the empty word
  and panics. (\<^verbatim>\<open>Compgen\<close> tests the last word of the sequence: when it is not
  empty, \<open>Compgen_boolean_flag\<close> gives the flag list if it starts with \<^verbatim>\<open>-\<close> and
  the empty string otherwise; with the cursor beyond the words the last word is the
  flag itself.)
\<close>

theorem Compgen_boolean_flag_empty_word:
  "cell_of comp_flags ''q'' = Some (BoolCell False)
   \<and> Compgen dec_host comp_flags 2 [''subcommand'', ''-q'', '''']
     = (Inl (GoPanic ''runtime error: index out of range''), comp_flags)"
  by (simp add: Compgen_def Compgen_flag_def cell_of_def Lookup_def comp_flags_def index_panic_def)

subsection \<open>What \<^verbatim>\<open>Compgen\<close> does to the flag set\<close>






section \<open>Parsing twice with one flag set\<close>







section \<open>The Lua function \<^verbatim>\<open>parse\<close> drops the first word\<close>









lemma parse_empty:
  "toStringSlice t = [] \<Longrightarrow>
   parse h gf t = (Inl (GoPanic ''runtime error: slice bounds out of range''), gf)"
  by (simp add: parse_def)




end
